theory Spec2Isabelle
  imports Main
begin

section \<open>The prediction and training server of \<^verbatim>\<open>assets/nn.py\<close>\<close>

text \<open>
  The server keeps one Keras model per WebSocket connection and answers text messages:
  \<^verbatim>\<open>exit\<close> closes the session, a message with the tag \<^verbatim>\<open>predict:\<close> is answered with
  the network's output, a message with the tag \<^verbatim>\<open>train:\<close> performs one fitting step, and
  everything else is echoed.

  A Python \<^verbatim>\<open>str\<close> is a sequence of code points. A \<^typ>\<open>char\<close> stands for one code point
  below 256 here, so \<^const>\<open>length\<close>, \<^const>\<open>drop\<close> and \<^const>\<open>take\<close> count what Python's
  \<^verbatim>\<open>len\<close> and slices count.
\<close>

subsection \<open>Exceptions\<close>

text \<open>
  \<^verbatim>\<open>ValueError\<close> is what numpy raises from \<^verbatim>\<open>fromstring\<close> and \<^verbatim>\<open>reshape\<close>;
  \<^verbatim>\<open>ConnectionClosed\<close> is what \<^verbatim>\<open>websocket.recv()\<close> raises once the peer has gone, and
  carries the text the exception prints as.
\<close>

datatype error = ValueError | ConnectionClosed string

datatype completion = Normal | Exception error

subsection \<open>The capabilities of numpy and Keras\<close>

text \<open>
  The arithmetic of the libraries stays opaque: the numbers are of an arbitrary type
  \<open>'n\<close>, the trainable state of a network (kernels, biases and the slots of the Adam
  optimizer) is of an arbitrary type \<open>'w\<close>, and the library functions the program calls
  are the fields of a record.
  \<^item> \<open>np_fromstring data\<close> is \<^verbatim>\<open>np.fromstring(data, sep=',')\<close>: the parsed numbers, or
    the exception it raises.
  \<^item> \<open>str_float v\<close> is \<^verbatim>\<open>str(v)\<close> for one entry of the output array.
  \<^item> \<open>initial_weights\<close> is the state of a freshly built network.
  \<^item> \<open>neuron w i j a x\<close> is the output of unit \<open>j\<close> of the layer of index \<open>i\<close>, with
    activation \<open>a\<close>, on the layer's input \<open>x\<close>, under the state \<open>w\<close>.
  \<^item> \<open>optimizer_step w xs ys\<close> is the state after one Adam update (learning rate 0.001,
    mean squared error) on the batch of inputs \<open>xs\<close> with targets \<open>ys\<close>.
  \<^item> \<open>fit_stdout w xs ys\<close> is what Keras writes to the standard output for one epoch on
    that batch, started in the state \<open>w\<close>: the progress line with the loss.
\<close>

datatype activation = Relu | Linear

datatype layer = Dense nat activation

record ('w, 'n) lib =
  np_fromstring :: "string \<Rightarrow> error + 'n list"
  str_float :: "'n \<Rightarrow> string"
  initial_weights :: 'w
  neuron :: "'w \<Rightarrow> nat \<Rightarrow> nat \<Rightarrow> activation \<Rightarrow> 'n list \<Rightarrow> 'n"
  optimizer_step :: "'w \<Rightarrow> 'n list list \<Rightarrow> 'n list list \<Rightarrow> 'w"
  fit_stdout :: "'w \<Rightarrow> 'n list list \<Rightarrow> 'n list list \<Rightarrow> string list"

subsection \<open>The Keras model\<close>

record 'w sequential =
  input_shape :: nat
  layers :: "layer list"
  weights :: 'w

text \<open>
  \<^verbatim>\<open>create_and_compile_model\<close>: an input of 7 features, a dense layer of 4 units with
  ReLU, a dense layer of 2 units.
\<close>

definition create_and_compile_model :: "('w, 'n) lib \<Rightarrow> 'w sequential" where
  "create_and_compile_model L =
     \<lparr>input_shape = 7,
      layers = [Dense 4 Relu, Dense 2 Linear],
      weights = initial_weights L\<rparr>"

text \<open>The forward pass of one sample through the layers, from the layer of index \<open>i\<close> on.\<close>

fun forward :: "('w, 'n) lib \<Rightarrow> 'w \<Rightarrow> nat \<Rightarrow> layer list \<Rightarrow> 'n list \<Rightarrow> 'n list" where
  "forward L w i [] x = x"
| "forward L w i (Dense u a # ls) x =
     forward L w (Suc i) ls (map (\<lambda>j. neuron L w i j a x) [0..<u])"

text \<open>
  \<^verbatim>\<open>model.predict(batch)\<close>: one output row per input row; a row of the wrong width is
  rejected. The state of the model is only read.
\<close>

definition model_predict ::
  "('w, 'n) lib \<Rightarrow> 'w sequential \<Rightarrow> 'n list list \<Rightarrow> error + 'n list list" where
  "model_predict L m batch =
     (if list_all (\<lambda>row. length row = input_shape m) batch
      then Inr (map (forward L (weights m) 0 (layers m)) batch)
      else Inl ValueError)"

text \<open>
  \<^verbatim>\<open>model.fit(x, y, epochs=n)\<close> on a batch that fits into one step (at most 32 samples):
  one update of the optimizer per epoch, and, the verbosity being the default one, the
  progress of each epoch on the standard output. The result is the model after the call
  and the lines written. The architecture is left as it is.
\<close>

fun fit_epochs ::
  "('w, 'n) lib \<Rightarrow> 'w \<Rightarrow> 'n list list \<Rightarrow> 'n list list \<Rightarrow> nat \<Rightarrow> 'w \<times> string list" where
  "fit_epochs L w x y 0 = (w, [])"
| "fit_epochs L w x y (Suc n) =
     (case fit_epochs L (optimizer_step L w x y) x y n of
        (w', out) \<Rightarrow> (w', fit_stdout L w x y @ out))"

definition model_fit ::
  "('w, 'n) lib \<Rightarrow> 'w sequential \<Rightarrow> 'n list list \<Rightarrow> 'n list list \<Rightarrow> nat \<Rightarrow>
     'w sequential \<times> string list" where
  "model_fit L m x y epochs =
     (case fit_epochs L (weights m) x y epochs of
        (w', out) \<Rightarrow> (m\<lparr>weights := w'\<rparr>, out))"

subsection \<open>Arrays and strings\<close>

text \<open>\<^verbatim>\<open>a.reshape(r, c)\<close> of a flat array: \<open>r\<close> rows of \<open>c\<close> entries, or \<^verbatim>\<open>ValueError\<close>.\<close>

fun chunks :: "nat \<Rightarrow> nat \<Rightarrow> 'a list \<Rightarrow> 'a list list" where
  "chunks 0 c xs = []"
| "chunks (Suc r) c xs = take c xs # chunks r c (drop c xs)"

definition reshape :: "'a list \<Rightarrow> nat \<Rightarrow> nat \<Rightarrow> error + 'a list list" where
  "reshape xs r c = (if length xs = r * c then Inr (chunks r c xs) else Inl ValueError)"

text \<open>\<^verbatim>\<open>a.flatten()\<close> of a two-dimensional array.\<close>

definition flatten :: "'a list list \<Rightarrow> 'a list" where
  "flatten rows = concat rows"

text \<open>\<^verbatim>\<open>xs[a:b]\<close> for indices that are not negative.\<close>

definition slice :: "nat \<Rightarrow> nat \<Rightarrow> 'a list \<Rightarrow> 'a list" where
  "slice a b xs = take (b - a) (drop a xs)"

text \<open>\<^verbatim>\<open>sep.join(parts)\<close>.\<close>

fun join :: "string \<Rightarrow> string list \<Rightarrow> string" where
  "join sep [] = []"
| "join sep [p] = p"
| "join sep (p # q # ps) = p @ sep @ join sep (q # ps)"

text \<open>\<^verbatim>\<open>s.startswith(p)\<close> and \<^verbatim>\<open>sub in s\<close>.\<close>

fun startswith :: "string \<Rightarrow> string \<Rightarrow> bool" where
  "startswith s [] = True"
| "startswith [] (p # ps) = False"
| "startswith (c # cs) (p # ps) = (c = p \<and> startswith cs ps)"

fun contains :: "string \<Rightarrow> string \<Rightarrow> bool" where
  "contains sub [] = (sub = [])"
| "contains sub (c # cs) = (startswith (c # cs) sub \<or> contains sub cs)"

text \<open>
  \<^verbatim>\<open>s.lower()\<close> on code points below 256: the letters A to Z and the capital letters of
  Latin-1 (192 to 222, the multiplication sign 215 apart) move up by 32.
\<close>

definition lower_char :: "char \<Rightarrow> char" where
  "lower_char c =
     (let n = (of_char c :: nat)
      in if (65 \<le> n \<and> n \<le> 90) \<or> (192 \<le> n \<and> n \<le> 214) \<or> (216 \<le> n \<and> n \<le> 222)
         then char_of (n + 32) else c)"

definition lower :: "string \<Rightarrow> string" where
  "lower s = map lower_char s"

subsection \<open>The tags\<close>

definition PREDICT_TAG :: string where
  "PREDICT_TAG = ''predict:''"

definition PREDICT_TAG_LEN :: nat where
  "PREDICT_TAG_LEN = length PREDICT_TAG"

definition TRAIN_TAG :: string where
  "TRAIN_TAG = ''train:''"

definition TRAIN_TAG_LEN :: nat where
  "TRAIN_TAG_LEN = length TRAIN_TAG"

subsection \<open>\<^verbatim>\<open>predict\<close> and \<^verbatim>\<open>train\<close>\<close>

text \<open>
  \<^verbatim>\<open>predict\<close>: parse, reshape to one row of 7, run the network, flatten, and join the
  printed entries with commas. With \<^verbatim>\<open>verbose=False\<close> Keras writes nothing.
\<close>

definition predict :: "('w, 'n) lib \<Rightarrow> 'w sequential \<Rightarrow> string \<Rightarrow> error + string" where
  "predict L model data =
     (case np_fromstring L data of
        Inl e \<Rightarrow> Inl e
      | Inr parsed \<Rightarrow>
          (case reshape parsed 1 7 of
             Inl e \<Rightarrow> Inl e
           | Inr input_array \<Rightarrow>
               (case model_predict L model input_array of
                  Inl e \<Rightarrow> Inl e
                | Inr out \<Rightarrow> Inr (join '','' (map (str_float L) (flatten out))))))"

text \<open>
  \<^verbatim>\<open>train\<close>: parse, take \<^verbatim>\<open>parsed[:7]\<close> as one row of 7 and \<^verbatim>\<open>parsed[7:9]\<close> as one row
  of 2, and fit for one epoch. The model is updated in place and the function returns
  nothing, so the result here is the model after the call, with the lines that
  \<^verbatim>\<open>model.fit\<close> has written to the standard output.
\<close>

definition train ::
  "('w, 'n) lib \<Rightarrow> 'w sequential \<Rightarrow> string \<Rightarrow> error + ('w sequential \<times> string list)" where
  "train L model data =
     (case np_fromstring L data of
        Inl e \<Rightarrow> Inl e
      | Inr parsed \<Rightarrow>
          (case reshape (slice 0 7 parsed) 1 7 of
             Inl e \<Rightarrow> Inl e
           | Inr x \<Rightarrow>
               (case reshape (slice 7 9 parsed) 1 2 of
                  Inl e \<Rightarrow> Inl e
                | Inr y \<Rightarrow> Inr (model_fit L model x y 1))))"

subsection \<open>The session\<close>

text \<open>
  What a session leaves behind: the messages sent to the client and the lines written to
  the standard output, both in order.
\<close>

record session =
  sent :: "string list"
  printed :: "string list"

definition print :: "string \<Rightarrow> session \<Rightarrow> session" where
  "print line s = s\<lparr>printed := printed s @ [line]\<rparr>"

text \<open>The lines that a library call has written.\<close>

definition print_lines :: "string list \<Rightarrow> session \<Rightarrow> session" where
  "print_lines out s = s\<lparr>printed := printed s @ out\<rparr>"

text \<open>
  \<^verbatim>\<open>await websocket.send(msg)\<close>. The peer may go away at any moment, also between its
  message and the reply to it, and then \<^verbatim>\<open>send\<close> raises \<^verbatim>\<open>ConnectionClosed\<close>. Whether the
  peer is still there is the first argument; \<open>reason\<close> is the text of the exception.
\<close>

definition send :: "bool \<Rightarrow> string \<Rightarrow> string \<Rightarrow> session \<Rightarrow> error + session" where
  "send up reason msg s =
     (if up then Inr (s\<lparr>sent := sent s @ [msg]\<rparr>) else Inl (ConnectionClosed reason))"

text \<open>
  The connection as the handler sees it: the peer's address as it prints, the messages
  that arrive before the peer goes away, each with whether the peer is still there when
  the handler sends its reply to it, and the text of the \<^verbatim>\<open>ConnectionClosed\<close> that \<^verbatim>\<open>recv\<close>
  and \<^verbatim>\<open>send\<close> raise once the peer has gone. One pass of the loop sends at most once, and
  a failed \<^verbatim>\<open>send\<close> ends the loop, so nothing is read after a message whose reply could not
  be sent.
\<close>

type_synonym arrival = "string \<times> bool"

record connection =
  remote_address :: string
  inbox :: "arrival list"
  close_reason :: string

text \<open>
  The branch of the loop body that computes the response (the \<^verbatim>\<open>if\<close>, \<^verbatim>\<open>elif\<close>,
  \<^verbatim>\<open>else\<close> on the tags): the response, the model after it and the lines written to the
  standard output on the way, or the exception raised.
\<close>

definition respond ::
  "('w, 'n) lib \<Rightarrow> 'w sequential \<Rightarrow> string \<Rightarrow> error + (string \<times> 'w sequential \<times> string list)" where
  "respond L model message =
     (if contains PREDICT_TAG message then
        (case predict L model (drop PREDICT_TAG_LEN message) of
           Inl e \<Rightarrow> Inl e
         | Inr r \<Rightarrow> Inr (''predict:'' @ r, model, []))
      else if contains TRAIN_TAG message then
        (case train L model (drop TRAIN_TAG_LEN message) of
           Inl e \<Rightarrow> Inl e
         | Inr (model', out) \<Rightarrow> Inr (''Train done'', model', out))
      else Inr (''Processed message: '' @ [CHR 0x27] @ message @ [CHR 0x27], model, []))"

text \<open>
  The \<^verbatim>\<open>while True\<close> loop of \<^verbatim>\<open>handler\<close>, over the messages still to arrive. It ends
  with \<^const>\<open>Normal\<close> at the \<^verbatim>\<open>break\<close> and with the exception otherwise; \<^verbatim>\<open>recv\<close> on
  an empty inbox raises \<^verbatim>\<open>ConnectionClosed\<close>, and so does a \<^verbatim>\<open>send\<close> to a peer that has
  gone.
\<close>

fun handler_loop ::
  "('w, 'n) lib \<Rightarrow> 'w sequential \<Rightarrow> arrival list \<Rightarrow> string \<Rightarrow> session \<Rightarrow> completion \<times> session" where
  "handler_loop L model [] reason s = (Exception (ConnectionClosed reason), s)"
| "handler_loop L model ((message, up) # rest) reason s =
     (let s1 = print (''< '' @ message) s in
      if lower message = ''exit'' then
        (let s2 = print (''Client sent '' @ [CHR 0x27] @ ''exit'' @ [CHR 0x27] @ '' message. Closing connection.'') s1 in
         case send up reason ''Goodbye!'' s2 of
           Inl e \<Rightarrow> (Exception e, s2)
         | Inr s3 \<Rightarrow> (Normal, s3))
      else
        (case respond L model message of
           Inl e \<Rightarrow> (Exception e, s1)
         | Inr (response, model', out) \<Rightarrow>
             (let s2 = print_lines out s1 in
              case send up reason response s2 of
                Inl e \<Rightarrow> (Exception e, s2)
              | Inr s3 \<Rightarrow> handler_loop L model' rest reason (print (''> '' @ response) s3))))"

text \<open>
  \<^verbatim>\<open>handler\<close>: a fresh model, the loop inside \<^verbatim>\<open>try\<close>, \<^verbatim>\<open>ConnectionClosed\<close> caught and
  printed, every other exception passed on, and the \<^verbatim>\<open>finally\<close> line printed in each
  case. The model is local to the call and is not part of the result.
\<close>

definition handler :: "('w, 'n) lib \<Rightarrow> connection \<Rightarrow> completion \<times> session" where
  "handler L ws =
     (let s0 = print (''Client connected from '' @ remote_address ws) \<lparr>sent = [], printed = []\<rparr>;
          model = create_and_compile_model L;
          (c, s1) = handler_loop L model (inbox ws) (close_reason ws) s0;
          (c', s2) =
            (case c of
               Exception (ConnectionClosed e) \<Rightarrow>
                 (Normal, print (''Connection closed unexpectedly: '' @ e) s1)
             | _ \<Rightarrow> (c, s1))
      in (c', print (''Client from '' @ remote_address ws @ '' disconnected.'') s2))"

subsection \<open>A sample instantiation\<close>

text \<open>
  To run the definitions on concrete messages the capabilities are instantiated with
  small stand-ins: the numbers are naturals written in decimal, a payload is split at
  its commas and each field has to be a non-empty run of digits, a unit adds up its
  input, its own index and the state, a training step adds the targets to the state, and
  the progress line of an epoch is a fixed text.
\<close>

fun split :: "char \<Rightarrow> string \<Rightarrow> string list" where
  "split sep [] = [[]]"
| "split sep (c # cs) =
     (if c = sep then [] # split sep cs
      else (case split sep cs of [] \<Rightarrow> [[c]] | f # fs \<Rightarrow> (c # f) # fs))"

definition digit_of :: "char \<Rightarrow> nat option" where
  "digit_of c = map_of (zip ''0123456789'' [0..<10]) c"

fun parse_digits :: "nat \<Rightarrow> string \<Rightarrow> nat option" where
  "parse_digits acc [] = Some acc"
| "parse_digits acc (c # cs) =
     (case digit_of c of None \<Rightarrow> None | Some d \<Rightarrow> parse_digits (10 * acc + d) cs)"

definition parse_field :: "string \<Rightarrow> nat option" where
  "parse_field f = (if f = [] then None else parse_digits 0 f)"

definition sample_fromstring :: "string \<Rightarrow> error + nat list" where
  "sample_fromstring data =
     (case those (map parse_field (split CHR '','' data)) of
        None \<Rightarrow> Inl ValueError
      | Some v \<Rightarrow> Inr v)"

fun show_nat :: "nat \<Rightarrow> string" where
  "show_nat n =
     (if n < 10 then [''0123456789'' ! n]
      else show_nat (n div 10) @ [''0123456789'' ! (n mod 10)])"

definition sample_lib :: "(nat, nat) lib" where
  "sample_lib =
     \<lparr>np_fromstring = sample_fromstring,
      str_float = show_nat,
      initial_weights = 0,
      neuron = (\<lambda>w i j a x. w + j + sum_list x),
      optimizer_step = (\<lambda>w xs ys. w + sum_list (concat ys)),
      fit_stdout = (\<lambda>w xs ys. [''1/1 - loss''])\<rparr>"

text \<open>
  A second stand-in for the parser does not raise: it stops at the first field that is
  not a number and returns the numbers in front of it.
\<close>

fun parse_prefix :: "string list \<Rightarrow> nat list" where
  "parse_prefix [] = []"
| "parse_prefix (f # fs) =
     (case parse_field f of None \<Rightarrow> [] | Some n \<Rightarrow> n # parse_prefix fs)"

definition lenient_fromstring :: "string \<Rightarrow> error + nat list" where
  "lenient_fromstring data = Inr (parse_prefix (split CHR '','' data))"

definition lenient_lib :: "(nat, nat) lib" where
  "lenient_lib = sample_lib\<lparr>np_fromstring := lenient_fromstring\<rparr>"


section \<open>Auxiliary facts\<close>

subsection \<open>Strings\<close>

lemma startswith_iff: "startswith s p \<longleftrightarrow> (\<exists>post. s = p @ post)"
  by (induction s p rule: startswith.induct) auto

text \<open>\<^const>\<open>contains\<close> is containment at any position.\<close>

lemma contains_iff: "contains sub s \<longleftrightarrow> (\<exists>pre post. s = pre @ sub @ post)"
proof (induction s)
  case Nil
  then show ?case by auto
next
  case (Cons c cs)
  show ?case
  proof
    assume "contains sub (c # cs)"
    then consider "startswith (c # cs) sub" | "contains sub cs" by auto
    then show "\<exists>pre post. c # cs = pre @ sub @ post"
    proof cases
      case 1
      then obtain post where "c # cs = sub @ post" by (auto simp: startswith_iff)
      then have "c # cs = [] @ sub @ post" by simp
      then show ?thesis by blast
    next
      case 2
      then obtain pre post where "cs = pre @ sub @ post" using Cons.IH by auto
      then have "c # cs = (c # pre) @ sub @ post" by simp
      then show ?thesis by blast
    qed
  next
    assume "\<exists>pre post. c # cs = pre @ sub @ post"
    then obtain pre post where eq: "c # cs = pre @ sub @ post" by auto
    show "contains sub (c # cs)"
    proof (cases pre)
      case Nil
      with eq have "startswith (c # cs) sub" by (auto simp: startswith_iff)
      then show ?thesis by simp
    next
      case (Cons p pre')
      with eq have "cs = pre' @ sub @ post" by simp
      then have "contains sub cs" using Cons.IH by blast
      then show ?thesis by simp
    qed
  qed
qed

lemma contains_length: "contains sub s \<Longrightarrow> length sub \<le> length s"
  by (auto simp: contains_iff)

lemma lower_length: "length (lower s) = length s"
  by (simp add: lower_def)

lemma exit_length: "lower message = ''exit'' \<Longrightarrow> length message = 4"
  using lower_length [of message] by simp

text \<open>A message with a tag is too long to be an \<^verbatim>\<open>exit\<close>.\<close>

lemma tagged_not_exit:
  "contains PREDICT_TAG message \<or> contains TRAIN_TAG message \<Longrightarrow> lower message \<noteq> ''exit''"
  using contains_length [of PREDICT_TAG message] contains_length [of TRAIN_TAG message]
    exit_length [of message]
  by (auto simp: PREDICT_TAG_def TRAIN_TAG_def)

text \<open>
  The messages that \<^verbatim>\<open>message.lower() == "exit"\<close> accepts are the 16 ways of writing
  \<^verbatim>\<open>exit\<close> in capital and small letters.
\<close>

lemma of_char_less: "(of_char c :: nat) < 256"
proof -
  have "(of_char c :: nat) mod 256 < 256" by simp
  then show ?thesis by (simp only: of_char_mod_256)
qed

lemma lower_char_eq_iff:
  "lower_char c = d \<longleftrightarrow>
     (if (65 \<le> (of_char c :: nat) \<and> (of_char c :: nat) \<le> 90) \<or>
         (192 \<le> (of_char c :: nat) \<and> (of_char c :: nat) \<le> 214) \<or>
         (216 \<le> (of_char c :: nat) \<and> (of_char c :: nat) \<le> 222)
      then (of_char c :: nat) + 32 = of_char d else c = d)"
proof -
  have "char_of ((of_char c :: nat) + 32) = d \<longleftrightarrow> (of_char c :: nat) + 32 = of_char d"
    if "(of_char c :: nat) \<le> 222"
  proof -
    have "((of_char c :: nat) + 32) mod 256 = of_char c + 32" using that by simp
    then show ?thesis by (simp add: char_of_eq_iff take_bit_eq_mod)
  qed
  then show ?thesis
    by (simp add: lower_char_def Let_def)
qed

lemma exit_letter_codes: "(of_char CHR ''e'' :: nat) = 101" "(of_char CHR ''E'' :: nat) = 69"
  "(of_char CHR ''x'' :: nat) = 120" "(of_char CHR ''X'' :: nat) = 88"
  "(of_char CHR ''i'' :: nat) = 105" "(of_char CHR ''I'' :: nat) = 73"
  "(of_char CHR ''t'' :: nat) = 116" "(of_char CHR ''T'' :: nat) = 84"
  by simp_all


lemma lower_char_letter:
  assumes "(of_char l :: nat) = of_char u + 32" and "65 \<le> (of_char u :: nat)" and "(of_char u :: nat) \<le> 90"
  shows "lower_char c = l \<longleftrightarrow> c = l \<or> c = u"
proof -
  have "c = u \<longleftrightarrow> (of_char c :: nat) = of_char u" "c = l \<longleftrightarrow> (of_char c :: nat) = of_char l"
    by simp_all
  then show ?thesis
    unfolding lower_char_eq_iff using assms of_char_less [of c] by auto
qed

lemma lower_exit_iff:
  "lower message = ''exit'' \<longleftrightarrow>
     (\<exists>a b c d. message = [a, b, c, d] \<and> (a = CHR ''e'' \<or> a = CHR ''E'') \<and>
        (b = CHR ''x'' \<or> b = CHR ''X'') \<and> (c = CHR ''i'' \<or> c = CHR ''I'') \<and>
        (d = CHR ''t'' \<or> d = CHR ''T''))"
proof -
  have e: "\<And>c. lower_char c = CHR ''e'' \<longleftrightarrow> c = CHR ''e'' \<or> c = CHR ''E''"
    by (rule lower_char_letter) simp_all
  have x: "\<And>c. lower_char c = CHR ''x'' \<longleftrightarrow> c = CHR ''x'' \<or> c = CHR ''X''"
    by (rule lower_char_letter) simp_all
  have i: "\<And>c. lower_char c = CHR ''i'' \<longleftrightarrow> c = CHR ''i'' \<or> c = CHR ''I''"
    by (rule lower_char_letter) simp_all
  have t: "\<And>c. lower_char c = CHR ''t'' \<longleftrightarrow> c = CHR ''t'' \<or> c = CHR ''T''"
    by (rule lower_char_letter) simp_all
  have "lower message = ''exit'' \<longleftrightarrow>
     (\<exists>a b c d. message = [a, b, c, d] \<and> lower_char a = CHR ''e'' \<and> lower_char b = CHR ''x'' \<and>
        lower_char c = CHR ''i'' \<and> lower_char d = CHR ''t'')"
    by (auto simp: lower_def map_eq_Cons_conv)
  then show ?thesis
    by (simp only: e x i t)
qed

subsection \<open>Arrays and the network\<close>

lemma reshape_row: "reshape xs (Suc 0) c = (if length xs = c then Inr [xs] else Inl ValueError)"
  by (simp add: reshape_def)

text \<open>The compiled network has two output units.\<close>

lemma forward_compiled:
  "forward L w 0 [Dense 4 Relu, Dense 2 Linear] x =
     [neuron L w 1 0 Linear (map (\<lambda>j. neuron L w 0 j Relu x) [0..<4]),
      neuron L w 1 1 Linear (map (\<lambda>j. neuron L w 0 j Relu x) [0..<4])]"
proof -
  have "[0..<2] = [0, Suc 0]" by (simp add: upt_rec numeral_2_eq_2)
  then show ?thesis by simp
qed

lemma predict_compiled:
  assumes "np_fromstring L data = Inr v" and "length v = 7"
    and "input_shape model = 7" and "layers model = [Dense 4 Relu, Dense 2 Linear]"
  shows "\<exists>a b. model_predict L model [v] = Inr [[a, b]] \<and>
           predict L model data = Inr (str_float L a @ '','' @ str_float L b)"
proof -
  let ?out = "forward L (weights model) 0 [Dense 4 Relu, Dense 2 Linear] v"
  obtain a b where ab: "?out = [a, b]" unfolding forward_compiled by blast
  have mp: "model_predict L model [v] = Inr [[a, b]]"
    using assms ab by (simp add: model_predict_def)
  have "predict L model data = Inr (str_float L a @ '','' @ str_float L b)"
    using assms(1,2) mp by (simp add: predict_def reshape_row flatten_def)
  with mp show ?thesis by blast
qed

text \<open>Nine or more parsed numbers pass both reshapes: the slices cut what they need.\<close>

lemma train_nine:
  assumes "np_fromstring L data = Inr v" and "9 \<le> length v"
  shows "train L model data = Inr (model_fit L model [take 7 v] [take 2 (drop 7 v)] 1)"
proof -
  have "length (slice 0 7 v) = 7" "length (slice 7 9 v) = 2"
    using assms(2) by (simp_all add: slice_def)
  moreover have "slice 0 7 v = take 7 v" "slice 7 9 v = take 2 (drop 7 v)"
    by (simp_all add: slice_def)
  ultimately show ?thesis
    using assms(1) by (simp add: train_def reshape_row)
qed

text \<open>One epoch is one step of the optimizer and one progress report.\<close>

lemma model_fit_once:
  "model_fit L model x y 1 =
     (model\<lparr>weights := optimizer_step L (weights model) x y\<rparr>, fit_stdout L (weights model) x y)"
  by (simp add: model_fit_def)

text \<open>Too few numbers fail one of the two reshapes; a count other than 7 fails the one of \<^const>\<open>predict\<close>.\<close>

lemma train_short:
  assumes "np_fromstring L data = Inr v" and "length v < 9"
  shows "train L model data = Inl ValueError"
proof (cases "length v < 7")
  case True
  then have "length (slice 0 7 v) \<noteq> 7" by (simp add: slice_def)
  then show ?thesis using assms(1) by (simp add: train_def reshape_row)
next
  case False
  then have "length (slice 7 9 v) \<noteq> 2" using assms(2) by (simp add: slice_def)
  then show ?thesis using assms(1) by (simp add: train_def reshape_row split: sum.splits)
qed

lemma predict_wrong_count:
  assumes "np_fromstring L data = Inr v" and "length v \<noteq> 7"
  shows "predict L model data = Inl ValueError"
  using assms by (simp add: predict_def reshape_row)

subsection \<open>The dispatch\<close>

text \<open>Only the branch of \<^verbatim>\<open>train:\<close> hands on another model.\<close>

lemma respond_model_changed:
  assumes "respond L model message = Inr (r, model', out)" and "model' \<noteq> model"
  shows "\<not> contains PREDICT_TAG message \<and> contains TRAIN_TAG message \<and> r = ''Train done''"
  using assms by (auto simp: respond_def split: if_splits sum.splits)

text \<open>
  What \<^const>\<open>respond\<close> hands to \<^const>\<open>predict\<close> is the message without its first
  \<^const>\<open>PREDICT_TAG_LEN\<close> characters, wherever the tag stands; that is the text after the
  tag only if the tag is in front.
\<close>

lemma drop_tag_iff: "drop (length tag) (pre @ tag @ payload) = payload \<longleftrightarrow> pre = []"
proof
  assume eq: "drop (length tag) (pre @ tag @ payload) = payload"
  have "length (drop (length tag) (pre @ tag @ payload)) = length pre + length payload" by simp
  with eq show "pre = []" by simp
qed simp

lemma respond_tag_anywhere:
  "respond L model (pre @ PREDICT_TAG @ payload) =
     (case predict L model (drop PREDICT_TAG_LEN (pre @ PREDICT_TAG @ payload)) of
        Inl e \<Rightarrow> Inl e
      | Inr r \<Rightarrow> Inr (''predict:'' @ r, model, []))"
proof -
  have "contains PREDICT_TAG (pre @ PREDICT_TAG @ payload)"
    unfolding contains_iff by blast
  then show ?thesis by (simp add: respond_def)
qed

lemma payload_after_tag:
  "drop PREDICT_TAG_LEN (pre @ PREDICT_TAG @ payload) = payload \<longleftrightarrow> pre = []"
  "drop TRAIN_TAG_LEN (pre @ TRAIN_TAG @ payload) = payload \<longleftrightarrow> pre = []"
  unfolding PREDICT_TAG_LEN_def TRAIN_TAG_LEN_def by (rule drop_tag_iff)+

text \<open>
  The model of a session is the compiled model in some state of training: no reply
  changes its architecture.
\<close>

lemma respond_keeps_architecture:
  assumes "respond L ((create_and_compile_model L)\<lparr>weights := w\<rparr>) message = Inr (r, model', out)"
  shows "\<exists>w'. model' = (create_and_compile_model L)\<lparr>weights := w'\<rparr>"
proof (cases "model' = (create_and_compile_model L)\<lparr>weights := w\<rparr>")
  case True
  then show ?thesis by blast
next
  case False
  then have "\<not> contains PREDICT_TAG message" "contains TRAIN_TAG message"
    using respond_model_changed [OF assms] by blast+
  then obtain p where "train L ((create_and_compile_model L)\<lparr>weights := w\<rparr>) (drop TRAIN_TAG_LEN message) =
      Inr (model', p)"
    using assms by (auto simp: respond_def split: sum.splits)
  then obtain x y where "model_fit L ((create_and_compile_model L)\<lparr>weights := w\<rparr>) x y 1 = (model', p)"
    by (auto simp: train_def split: sum.splits)
  then have "model' = (create_and_compile_model L)\<lparr>weights := optimizer_step L w x y\<rparr>"
    unfolding model_fit_once by simp
  then show ?thesis by blast
qed

subsection \<open>One pass of the loop\<close>

text \<open>
  A message that is not \<^verbatim>\<open>exit\<close> and for which \<^const>\<open>respond\<close> raises nothing: if the
  peer is still there the reply is sent and the loop goes on; if it has gone, the loop
  ends with \<^verbatim>\<open>ConnectionClosed\<close> after the work for the reply has been done.
\<close>

lemma loop_replies:
  assumes "lower message \<noteq> ''exit''" and "respond L model message = Inr (r, model', out)"
  shows "handler_loop L model ((message, True) # rest) reason s =
      handler_loop L model' rest reason
        (s\<lparr>sent := sent s @ [r],
           printed := printed s @ [''< '' @ message] @ out @ [''> '' @ r]\<rparr>)"
  using assms by (simp add: Let_def print_def print_lines_def send_def)

lemma loop_peer_gone:
  assumes "lower message \<noteq> ''exit''" and "respond L model message = Inr (r, model', out)"
  shows "handler_loop L model ((message, False) # rest) reason s =
      (Exception (ConnectionClosed reason),
       s\<lparr>printed := printed s @ [''< '' @ message] @ out\<rparr>)"
  using assms by (simp add: Let_def print_def print_lines_def send_def)


subsection \<open>The handler\<close>


section \<open>The claims\<close>

text \<open>
  Claim C1, as stated, promises the reply to every message that contains \<^verbatim>\<open>predict:\<close> and
  whose payload is 7 numbers. Two sessions show that it does not hold. The first has a
  character in front of the tag: the text after the tag is 7 numbers, but the handler
  decodes the message without its first \<^const>\<open>PREDICT_TAG_LEN\<close> characters and the session
  ends with \<^verbatim>\<open>ValueError\<close> (the slip of claim C3). In the second the peer has gone when the
  reply is to be sent: \<^verbatim>\<open>send\<close> raises \<^verbatim>\<open>ConnectionClosed\<close>, the handler catches it, and
  nothing is sent.
\<close>

theorem predict_reply_not_for_every_message:
  "contains PREDICT_TAG ''xpredict:1,2,3,4,5,6,7''
   \<and> np_fromstring lenient_lib ''1,2,3,4,5,6,7'' = Inr [1, 2, 3, 4, 5, 6, 7]
   \<and> handler lenient_lib
       \<lparr>remote_address = ''peer'', inbox = [(''xpredict:1,2,3,4,5,6,7'', True)], close_reason = ''gone''\<rparr> =
       (Exception ValueError,
        \<lparr>sent = [],
         printed = [''Client connected from peer'', ''< xpredict:1,2,3,4,5,6,7'',
                    ''Client from peer disconnected.'']\<rparr>)
   \<and> contains PREDICT_TAG ''predict:1,2,3,4,5,6,7''
   \<and> np_fromstring lenient_lib (drop PREDICT_TAG_LEN ''predict:1,2,3,4,5,6,7'') = Inr [1, 2, 3, 4, 5, 6, 7]
   \<and> handler lenient_lib
       \<lparr>remote_address = ''peer'', inbox = [(''predict:1,2,3,4,5,6,7'', False)], close_reason = ''gone''\<rparr> =
       (Normal,
        \<lparr>sent = [],
         printed = [''Client connected from peer'', ''< predict:1,2,3,4,5,6,7'',
                    ''Connection closed unexpectedly: gone'',
                    ''Client from peer disconnected.'']\<rparr>)"
  by code_simp

text \<open>
  Claim C1, amended. A message that begins with the tag \<^verbatim>\<open>predict:\<close> and whose payload
  after the tag parses to 7 numbers gets, whatever the state \<open>w\<close> of training of the
  session's model, the reply \<^verbatim>\<open>predict:\<close> followed by the two printed outputs of the
  network with a comma between them; the model is left as it is and nothing is printed
  by the libraries. If the peer is still there, exactly this one message is sent and the
  loop goes on to the next message; if the peer has gone, nothing is sent and the loop
  ends with \<^verbatim>\<open>ConnectionClosed\<close>. Messages with characters in front of the tag are left
  out.
\<close>

theorem predict_request_reply:
  assumes "message = PREDICT_TAG @ payload"
    and "np_fromstring L payload = Inr v"
    and "length v = 7"
    and "model = (create_and_compile_model L)\<lparr>weights := w\<rparr>"
  shows "\<exists>a b.
      model_predict L model [v] = Inr [[a, b]] \<and>
      respond L model message =
        Inr (''predict:'' @ str_float L a @ '','' @ str_float L b, model, []) \<and>
      handler_loop L model ((message, True) # rest) reason s =
        handler_loop L model rest reason
          (s\<lparr>sent := sent s @ [''predict:'' @ str_float L a @ '','' @ str_float L b],
             printed := printed s @
               [''< '' @ message, ''> predict:'' @ str_float L a @ '','' @ str_float L b]\<rparr>) \<and>
      handler_loop L model ((message, False) # rest) reason s =
        (Exception (ConnectionClosed reason), s\<lparr>printed := printed s @ [''< '' @ message]\<rparr>)"
proof -
  have shape: "input_shape model = 7" "layers model = [Dense 4 Relu, Dense 2 Linear]"
    using assms(4) by (simp_all add: create_and_compile_model_def)
  have tag: "contains PREDICT_TAG message"
    unfolding contains_iff using assms(1) by (metis append_Nil)
  have pay: "drop PREDICT_TAG_LEN message = payload"
    using assms(1) by (simp add: PREDICT_TAG_LEN_def)
  obtain a b where mp: "model_predict L model [v] = Inr [[a, b]]"
    and pr: "predict L model payload = Inr (str_float L a @ '','' @ str_float L b)"
    using predict_compiled [OF assms(2,3) shape] by blast
  let ?r = "''predict:'' @ str_float L a @ '','' @ str_float L b"
  have ne: "lower message \<noteq> ''exit''"
    using tag tagged_not_exit by blast
  have rs: "respond L model message = Inr (?r, model, [])"
    using tag pr pay by (simp add: respond_def)
  have up: "handler_loop L model ((message, True) # rest) reason s =
        handler_loop L model rest reason
          (s\<lparr>sent := sent s @ [?r], printed := printed s @ [''< '' @ message, ''> '' @ ?r]\<rparr>)"
    using loop_replies [OF ne rs, of rest reason s] by simp
  have down: "handler_loop L model ((message, False) # rest) reason s =
        (Exception (ConnectionClosed reason), s\<lparr>printed := printed s @ [''< '' @ message]\<rparr>)"
    using loop_peer_gone [OF ne rs, of rest reason s] by simp
  show ?thesis
    using mp rs up down by (intro exI [of _ a] exI [of _ b]) simp
qed

text \<open>The exchange for \<^verbatim>\<open>predict:1,2,3,4,5,6,7\<close> under the sample instantiation.\<close>

theorem predict_request_reply_witness:
  "''predict:1,2,3,4,5,6,7'' = PREDICT_TAG @ ''1,2,3,4,5,6,7'' \<and>
   np_fromstring sample_lib ''1,2,3,4,5,6,7'' = Inr [1, 2, 3, 4, 5, 6, 7] \<and>
   model_predict sample_lib (create_and_compile_model sample_lib) [[1, 2, 3, 4, 5, 6, 7]] =
     Inr [[118, 119]] \<and>
   respond sample_lib (create_and_compile_model sample_lib) ''predict:1,2,3,4,5,6,7'' =
     Inr (''predict:118,119'', create_and_compile_model sample_lib, []) \<and>
   handler_loop sample_lib (create_and_compile_model sample_lib)
     [(''predict:1,2,3,4,5,6,7'', True)] ''gone'' \<lparr>sent = [], printed = []\<rparr> =
     (Exception (ConnectionClosed ''gone''),
      \<lparr>sent = [''predict:118,119''],
       printed = [''< predict:1,2,3,4,5,6,7'', ''> predict:118,119'']\<rparr>) \<and>
   handler_loop sample_lib (create_and_compile_model sample_lib)
     [(''predict:1,2,3,4,5,6,7'', False)] ''gone'' \<lparr>sent = [], printed = []\<rparr> =
     (Exception (ConnectionClosed ''gone''),
      \<lparr>sent = [], printed = [''< predict:1,2,3,4,5,6,7'']\<rparr>)"
proof -
  let ?M = "create_and_compile_model sample_lib"
  let ?s = "\<lparr>sent = [], printed = []\<rparr>"
  have h1: "''predict:1,2,3,4,5,6,7'' = PREDICT_TAG @ ''1,2,3,4,5,6,7''" by code_simp
  have h2: "np_fromstring sample_lib ''1,2,3,4,5,6,7'' = Inr [1, 2, 3, 4, 5, 6, 7]" by code_simp
  have h3: "length [1, 2, 3, 4, 5, 6, 7 :: nat] = 7" by simp
  have h4: "?M = ?M\<lparr>weights := 0\<rparr>"
    by (simp add: create_and_compile_model_def sample_lib_def)
  have out: "model_predict sample_lib ?M [[1, 2, 3, 4, 5, 6, 7]] = Inr [[118, 119]]" by code_simp
  have st: "str_float sample_lib 118 = ''118''" "str_float sample_lib 119 = ''119''" by code_simp+
  obtain a b where
    mp: "model_predict sample_lib ?M [[1, 2, 3, 4, 5, 6, 7]] = Inr [[a, b]]"
    and rs: "respond sample_lib ?M ''predict:1,2,3,4,5,6,7'' =
        Inr (''predict:'' @ str_float sample_lib a @ '','' @ str_float sample_lib b, ?M, [])"
    and up: "handler_loop sample_lib ?M ((''predict:1,2,3,4,5,6,7'', True) # []) ''gone'' ?s =
        handler_loop sample_lib ?M [] ''gone''
          (?s\<lparr>sent := sent ?s @ [''predict:'' @ str_float sample_lib a @ '','' @ str_float sample_lib b],
             printed := printed ?s @
               [''< '' @ ''predict:1,2,3,4,5,6,7'',
                ''> predict:'' @ str_float sample_lib a @ '','' @ str_float sample_lib b]\<rparr>)"
    and down: "handler_loop sample_lib ?M ((''predict:1,2,3,4,5,6,7'', False) # []) ''gone'' ?s =
        (Exception (ConnectionClosed ''gone''),
         ?s\<lparr>printed := printed ?s @ [''< '' @ ''predict:1,2,3,4,5,6,7'']\<rparr>)"
    using predict_request_reply [OF h1 h2 h3 h4, of "[]" "''gone''" ?s] by blast
  have ab: "a = 118" "b = 119" using mp out by simp_all
  have r1: "respond sample_lib ?M ''predict:1,2,3,4,5,6,7'' = Inr (''predict:118,119'', ?M, [])"
    using rs unfolding ab st by simp
  have r2: "handler_loop sample_lib ?M [(''predict:1,2,3,4,5,6,7'', True)] ''gone'' ?s =
     (Exception (ConnectionClosed ''gone''),
      \<lparr>sent = [''predict:118,119''],
       printed = [''< predict:1,2,3,4,5,6,7'', ''> predict:118,119'']\<rparr>)"
    unfolding up ab st by simp
  have r3: "handler_loop sample_lib ?M [(''predict:1,2,3,4,5,6,7'', False)] ''gone'' ?s =
     (Exception (ConnectionClosed ''gone''),
      \<lparr>sent = [], printed = [''< predict:1,2,3,4,5,6,7'']\<rparr>)"
    unfolding down by simp
  show ?thesis using h1 h2 out r1 r2 r3 by blast
qed

text \<open>
  Claim C2, as stated, promises \<^verbatim>\<open>Train done\<close> to every message that contains \<^verbatim>\<open>train:\<close>
  and whose payload is 9 numbers. Three sessions show that it does not hold. In the first
  the message contains \<^verbatim>\<open>predict:\<close> as well, behind 9 numbers that the lenient parser
  accepts: the tag \<^verbatim>\<open>predict:\<close> is tested first, the prediction fails and no training takes
  place. In the second the peer has gone when the reply is to be sent: the model has been
  fitted, but nothing is sent. The third has a character in front of the tag (the slip
  of claim C3).
\<close>

theorem train_reply_not_for_every_message:
  "contains TRAIN_TAG ''train:1,2,3,4,5,6,7,8,9,predict:''
   \<and> np_fromstring lenient_lib (drop TRAIN_TAG_LEN ''train:1,2,3,4,5,6,7,8,9,predict:'') =
       Inr [1, 2, 3, 4, 5, 6, 7, 8, 9]
   \<and> handler lenient_lib
       \<lparr>remote_address = ''peer'', inbox = [(''train:1,2,3,4,5,6,7,8,9,predict:'', True)],
        close_reason = ''gone''\<rparr> =
       (Exception ValueError,
        \<lparr>sent = [],
         printed = [''Client connected from peer'', ''< train:1,2,3,4,5,6,7,8,9,predict:'',
                    ''Client from peer disconnected.'']\<rparr>)
   \<and> contains TRAIN_TAG ''train:1,2,3,4,5,6,7,8,9''
   \<and> np_fromstring lenient_lib (drop TRAIN_TAG_LEN ''train:1,2,3,4,5,6,7,8,9'') =
       Inr [1, 2, 3, 4, 5, 6, 7, 8, 9]
   \<and> handler lenient_lib
       \<lparr>remote_address = ''peer'', inbox = [(''train:1,2,3,4,5,6,7,8,9'', False)],
        close_reason = ''gone''\<rparr> =
       (Normal,
        \<lparr>sent = [],
         printed = [''Client connected from peer'', ''< train:1,2,3,4,5,6,7,8,9'', ''1/1 - loss'',
                    ''Connection closed unexpectedly: gone'',
                    ''Client from peer disconnected.'']\<rparr>)
   \<and> contains TRAIN_TAG ''xtrain:1,2,3,4,5,6,7,8,9''
   \<and> np_fromstring lenient_lib ''1,2,3,4,5,6,7,8,9'' = Inr [1, 2, 3, 4, 5, 6, 7, 8, 9]
   \<and> handler lenient_lib
       \<lparr>remote_address = ''peer'', inbox = [(''xtrain:1,2,3,4,5,6,7,8,9'', True)],
        close_reason = ''gone''\<rparr> =
       (Exception ValueError,
        \<lparr>sent = [],
         printed = [''Client connected from peer'', ''< xtrain:1,2,3,4,5,6,7,8,9'',
                    ''Client from peer disconnected.'']\<rparr>)"
  by code_simp

text \<open>
  Claim C2, amended. A message that begins with the tag \<^verbatim>\<open>train:\<close>, does not contain
  \<^verbatim>\<open>predict:\<close>, and whose payload after the tag parses to 9 numbers is split into the first
  7 numbers as input and the last 2 as target; the model is fitted with them for one
  epoch, which is exactly one step of the optimizer on that one sample, and Keras writes
  its progress to the standard output; the reply is the literal \<^verbatim>\<open>Train done\<close>, whatever the
  model and the numbers are. If the peer is still there, exactly this one message is sent
  and the loop goes on with the fitted model; if the peer has gone, nothing is sent and
  the loop ends with \<^verbatim>\<open>ConnectionClosed\<close>. Messages with characters in front of the tag
  are left out.
\<close>

theorem train_request_reply:
  assumes "message = TRAIN_TAG @ payload"
    and "\<not> contains PREDICT_TAG message"
    and "np_fromstring L payload = Inr v"
    and "length v = 9"
  shows "\<exists>x y model' out.
      x = take 7 v \<and> y = drop 7 v \<and> length x = 7 \<and> length y = 2 \<and>
      model' = model\<lparr>weights := optimizer_step L (weights model) [x] [y]\<rparr> \<and>
      out = fit_stdout L (weights model) [x] [y] \<and>
      model_fit L model [x] [y] 1 = (model', out) \<and>
      respond L model message = Inr (''Train done'', model', out) \<and>
      handler_loop L model ((message, True) # rest) reason s =
        handler_loop L model' rest reason
          (s\<lparr>sent := sent s @ [''Train done''],
             printed := printed s @ [''< '' @ message] @ out @ [''> Train done'']\<rparr>) \<and>
      handler_loop L model ((message, False) # rest) reason s =
        (Exception (ConnectionClosed reason),
         s\<lparr>printed := printed s @ [''< '' @ message] @ out\<rparr>)"
proof -
  let ?x = "take 7 v" and ?y = "drop 7 v"
  let ?model' = "model\<lparr>weights := optimizer_step L (weights model) [?x] [?y]\<rparr>"
  let ?out = "fit_stdout L (weights model) [?x] [?y]"
  have tag: "contains TRAIN_TAG message"
    unfolding contains_iff using assms(1) by (metis append_Nil)
  have pay: "drop TRAIN_TAG_LEN message = payload"
    using assms(1) by (simp add: TRAIN_TAG_LEN_def)
  have ne: "lower message \<noteq> ''exit''"
    using tag tagged_not_exit by blast
  have y: "take 2 (drop 7 v) = ?y" using assms(4) by simp
  have fit: "model_fit L model [?x] [?y] 1 = (?model', ?out)"
    by (rule model_fit_once)
  have tr: "train L model payload = Inr (?model', ?out)"
    using train_nine [OF assms(3), of model] assms(4) y fit by simp
  have rs: "respond L model message = Inr (''Train done'', ?model', ?out)"
    using tag assms(2) tr pay by (simp add: respond_def)
  have up: "handler_loop L model ((message, True) # rest) reason s =
        handler_loop L ?model' rest reason
          (s\<lparr>sent := sent s @ [''Train done''],
             printed := printed s @ [''< '' @ message] @ ?out @ [''> Train done'']\<rparr>)"
    using loop_replies [OF ne rs, of rest reason s] by simp
  have down: "handler_loop L model ((message, False) # rest) reason s =
        (Exception (ConnectionClosed reason),
         s\<lparr>printed := printed s @ [''< '' @ message] @ ?out\<rparr>)"
    using loop_peer_gone [OF ne rs, of rest reason s] by simp
  have len: "length ?x = 7" "length ?y = 2" using assms(4) by simp_all
  show ?thesis
    using len fit rs up down
    by (intro exI [of _ ?x] exI [of _ ?y] exI [of _ ?model'] exI [of _ ?out]) simp
qed

text \<open>The exchange for \<^verbatim>\<open>train:1,2,3,4,5,6,7,8,9\<close> under the sample instantiation.\<close>

theorem train_request_reply_witness:
  "''train:1,2,3,4,5,6,7,8,9'' = TRAIN_TAG @ ''1,2,3,4,5,6,7,8,9'' \<and>
   \<not> contains PREDICT_TAG ''train:1,2,3,4,5,6,7,8,9'' \<and>
   np_fromstring sample_lib ''1,2,3,4,5,6,7,8,9'' = Inr [1, 2, 3, 4, 5, 6, 7, 8, 9] \<and>
   model_fit sample_lib (create_and_compile_model sample_lib) [[1, 2, 3, 4, 5, 6, 7]] [[8, 9]] 1 =
     ((create_and_compile_model sample_lib)\<lparr>weights := 17\<rparr>, [''1/1 - loss'']) \<and>
   respond sample_lib (create_and_compile_model sample_lib) ''train:1,2,3,4,5,6,7,8,9'' =
     Inr (''Train done'', (create_and_compile_model sample_lib)\<lparr>weights := 17\<rparr>, [''1/1 - loss'']) \<and>
   handler_loop sample_lib (create_and_compile_model sample_lib)
     [(''train:1,2,3,4,5,6,7,8,9'', True)] ''gone'' \<lparr>sent = [], printed = []\<rparr> =
     (Exception (ConnectionClosed ''gone''),
      \<lparr>sent = [''Train done''],
       printed = [''< train:1,2,3,4,5,6,7,8,9'', ''1/1 - loss'', ''> Train done'']\<rparr>) \<and>
   handler_loop sample_lib (create_and_compile_model sample_lib)
     [(''train:1,2,3,4,5,6,7,8,9'', False)] ''gone'' \<lparr>sent = [], printed = []\<rparr> =
     (Exception (ConnectionClosed ''gone''),
      \<lparr>sent = [], printed = [''< train:1,2,3,4,5,6,7,8,9'', ''1/1 - loss'']\<rparr>)"
proof -
  let ?M = "create_and_compile_model sample_lib"
  let ?s = "\<lparr>sent = [], printed = []\<rparr>"
  let ?v = "[1, 2, 3, 4, 5, 6, 7, 8, 9 :: nat]"
  have h1: "''train:1,2,3,4,5,6,7,8,9'' = TRAIN_TAG @ ''1,2,3,4,5,6,7,8,9''" by code_simp
  have h2: "\<not> contains PREDICT_TAG ''train:1,2,3,4,5,6,7,8,9''" by code_simp
  have h3: "np_fromstring sample_lib ''1,2,3,4,5,6,7,8,9'' = Inr ?v" by code_simp
  have h4: "length ?v = 9" by simp
  have w: "optimizer_step sample_lib (weights ?M) [take 7 ?v] [drop 7 ?v] = 17"
    by (simp add: sample_lib_def create_and_compile_model_def)
  have o: "fit_stdout sample_lib (weights ?M) [take 7 ?v] [drop 7 ?v] = [''1/1 - loss'']"
    by (simp add: sample_lib_def)
  have v: "take 7 ?v = [1, 2, 3, 4, 5, 6, 7]" "drop 7 ?v = [8, 9]" by simp_all
  obtain x y model' out where
    x: "x = take 7 ?v" and y: "y = drop 7 ?v"
    and m: "model' = ?M\<lparr>weights := optimizer_step sample_lib (weights ?M) [x] [y]\<rparr>"
    and ou: "out = fit_stdout sample_lib (weights ?M) [x] [y]"
    and fit: "model_fit sample_lib ?M [x] [y] 1 = (model', out)"
    and rs: "respond sample_lib ?M ''train:1,2,3,4,5,6,7,8,9'' = Inr (''Train done'', model', out)"
    and up: "handler_loop sample_lib ?M ((''train:1,2,3,4,5,6,7,8,9'', True) # []) ''gone'' ?s =
        handler_loop sample_lib model' [] ''gone''
          (?s\<lparr>sent := sent ?s @ [''Train done''],
             printed := printed ?s @ [''< '' @ ''train:1,2,3,4,5,6,7,8,9''] @ out @ [''> Train done'']\<rparr>)"
    and down: "handler_loop sample_lib ?M ((''train:1,2,3,4,5,6,7,8,9'', False) # []) ''gone'' ?s =
        (Exception (ConnectionClosed ''gone''),
         ?s\<lparr>printed := printed ?s @ [''< '' @ ''train:1,2,3,4,5,6,7,8,9''] @ out\<rparr>)"
    using train_request_reply [OF h1 h2 h3 h4, of ?M "[]" "''gone''" ?s] by blast
  have m': "model' = ?M\<lparr>weights := 17\<rparr>" using m w x y by simp
  have o': "out = [''1/1 - loss'']" using ou o x y by simp
  have r0: "model_fit sample_lib ?M [[1, 2, 3, 4, 5, 6, 7]] [[8, 9]] 1 =
     (?M\<lparr>weights := 17\<rparr>, [''1/1 - loss''])"
    using fit unfolding m' o' x y v .
  have r1: "respond sample_lib ?M ''train:1,2,3,4,5,6,7,8,9'' =
     Inr (''Train done'', ?M\<lparr>weights := 17\<rparr>, [''1/1 - loss''])"
    using rs unfolding m' o' .
  have r2: "handler_loop sample_lib ?M [(''train:1,2,3,4,5,6,7,8,9'', True)] ''gone'' ?s =
     (Exception (ConnectionClosed ''gone''),
      \<lparr>sent = [''Train done''],
       printed = [''< train:1,2,3,4,5,6,7,8,9'', ''1/1 - loss'', ''> Train done'']\<rparr>)"
    unfolding up o' by simp
  have r3: "handler_loop sample_lib ?M [(''train:1,2,3,4,5,6,7,8,9'', False)] ''gone'' ?s =
     (Exception (ConnectionClosed ''gone''),
      \<lparr>sent = [], printed = [''< train:1,2,3,4,5,6,7,8,9'', ''1/1 - loss'']\<rparr>)"
    unfolding down o' by simp
  show ?thesis using h1 h2 h3 r0 r1 r2 r3 by blast
qed

text \<open>
  Claim C3 says that a tag found after leading characters is stripped and the rest of the
  message decoded. The code tests for the tag anywhere but always cuts the first
  \<^const>\<open>PREDICT_TAG_LEN\<close> characters off: of \<^verbatim>\<open>xpredict:1,2,3,4,5,6,7\<close> it decodes
  \<^verbatim>\<open>:1,2,3,4,5,6,7\<close>, which neither sample parser turns into 7 numbers, so the session
  ends with \<^verbatim>\<open>ValueError\<close> and nothing is sent, where the same request without the
  leading character is answered.
\<close>

theorem tag_after_leading_character:
  "respond sample_lib (create_and_compile_model sample_lib) ''predict:1,2,3,4,5,6,7'' =
     Inr (''predict:118,119'', create_and_compile_model sample_lib, [])
   \<and> contains PREDICT_TAG ''xpredict:1,2,3,4,5,6,7''
   \<and> drop PREDICT_TAG_LEN ''xpredict:1,2,3,4,5,6,7'' = '':1,2,3,4,5,6,7''
   \<and> respond sample_lib (create_and_compile_model sample_lib) ''xpredict:1,2,3,4,5,6,7'' =
       Inl ValueError
   \<and> respond lenient_lib (create_and_compile_model lenient_lib) ''xpredict:1,2,3,4,5,6,7'' =
       Inl ValueError
   \<and> handler lenient_lib
       \<lparr>remote_address = ''peer'', inbox = [(''xpredict:1,2,3,4,5,6,7'', True)], close_reason = ''gone''\<rparr> =
       (Exception ValueError,
        \<lparr>sent = [],
         printed = [''Client connected from peer'', ''< xpredict:1,2,3,4,5,6,7'',
                    ''Client from peer disconnected.'']\<rparr>)"
  by code_simp

text \<open>
  Claim C4, as stated, asks that decoding fails whenever a field is not a number and
  whenever a training payload has more than 9 numbers. Neither holds. A parser that stops
  at the first field that is not a number and returns the numbers in front of it lets
  \<^verbatim>\<open>1,2,3,4,5,6,7,x\<close> through as 7 numbers, and the prediction is answered. And
  \<^verbatim>\<open>parsed[:7]\<close> and \<^verbatim>\<open>parsed[7:9]\<close> cut the first nine of ten numbers out, both reshapes
  succeed, the model is trained and the reply is \<^verbatim>\<open>Train done\<close>, under either parser.
\<close>

theorem decoding_accepted:
  "np_fromstring lenient_lib ''1,2,3,4,5,6,7,x'' = Inr [1, 2, 3, 4, 5, 6, 7]
   \<and> predict lenient_lib (create_and_compile_model lenient_lib) ''1,2,3,4,5,6,7,x'' = Inr ''118,119''
   \<and> respond lenient_lib (create_and_compile_model lenient_lib) ''predict:1,2,3,4,5,6,7,x'' =
       Inr (''predict:118,119'', create_and_compile_model lenient_lib, [])
   \<and> np_fromstring lenient_lib ''1,2,3,4,5,6,7,8,9,10'' = Inr [1, 2, 3, 4, 5, 6, 7, 8, 9, 10]
   \<and> length [1, 2, 3, 4, 5, 6, 7, 8, 9, 10 :: nat] \<noteq> 9
   \<and> train lenient_lib (create_and_compile_model lenient_lib) ''1,2,3,4,5,6,7,8,9,10'' =
       Inr ((create_and_compile_model lenient_lib)\<lparr>weights := 17\<rparr>, [''1/1 - loss''])
   \<and> respond lenient_lib (create_and_compile_model lenient_lib) ''train:1,2,3,4,5,6,7,8,9,10'' =
       Inr (''Train done'', (create_and_compile_model lenient_lib)\<lparr>weights := 17\<rparr>, [''1/1 - loss''])
   \<and> train sample_lib (create_and_compile_model sample_lib) ''1,2,3,4,5,6,7,8,9,10'' =
       Inr ((create_and_compile_model sample_lib)\<lparr>weights := 17\<rparr>, [''1/1 - loss''])"
  by code_simp

text \<open>
  Claim C4, amended. Decoding fails with the parser's exception whenever
  \<^verbatim>\<open>np.fromstring\<close> raises on the payload, for a prediction as for a training request. It
  fails with \<^verbatim>\<open>ValueError\<close>, out of \<^verbatim>\<open>reshape\<close>, whenever the number of values the parser
  returns is not exactly 7 for a prediction request, or is less than 9 for a training
  request. Exactly 7 values pass the reshape of a prediction request, and a training
  payload of 9 or more values is accepted: the first 7 are the input, the next 2 the
  target, and what follows the ninth is ignored. A field that is not a number makes
  decoding fail only through what the parser does with it.
\<close>

theorem decode_failures:
  "(np_fromstring L data = Inl e \<longrightarrow>
      predict L model data = Inl e \<and> train L model data = Inl e)
   \<and> (np_fromstring L data = Inr v \<and> length v \<noteq> 7 \<longrightarrow>
        predict L model data = Inl ValueError)
   \<and> (np_fromstring L data = Inr v \<and> length v = 7 \<longrightarrow>
        reshape v 1 7 = Inr [v])
   \<and> (np_fromstring L data = Inr v \<and> length v < 9 \<longrightarrow>
        train L model data = Inl ValueError)
   \<and> (np_fromstring L data = Inr v \<and> 9 \<le> length v \<longrightarrow>
        train L model data = Inr (model_fit L model [take 7 v] [take 2 (drop 7 v)] 1))"
proof (intro conjI impI)
  assume "np_fromstring L data = Inl e"
  then show "predict L model data = Inl e" "train L model data = Inl e"
    by (simp_all add: predict_def train_def)
next
  assume "np_fromstring L data = Inr v \<and> length v \<noteq> 7"
  then show "predict L model data = Inl ValueError"
    using predict_wrong_count by blast
next
  assume "np_fromstring L data = Inr v \<and> length v = 7"
  then show "reshape v 1 7 = Inr [v]"
    by (simp add: reshape_row)
next
  assume "np_fromstring L data = Inr v \<and> length v < 9"
  then show "train L model data = Inl ValueError"
    using train_short by blast
next
  assume "np_fromstring L data = Inr v \<and> 9 \<le> length v"
  then show "train L model data = Inr (model_fit L model [take 7 v] [take 2 (drop 7 v)] 1)"
    using train_nine by blast
qed

text \<open>
  A payload with a field that is not a number, under the parser that raises and under the
  one that returns the two numbers in front of it; a payload of 7 and one of 10 numbers.
\<close>

theorem decode_failures_witness:
  "np_fromstring sample_lib ''1,2,x,4,5,6,7'' = Inl ValueError \<and>
   predict sample_lib (create_and_compile_model sample_lib) ''1,2,x,4,5,6,7'' = Inl ValueError \<and>
   train sample_lib (create_and_compile_model sample_lib) ''1,2,x,4,5,6,7'' = Inl ValueError \<and>
   np_fromstring lenient_lib ''1,2,x,4,5,6,7'' = Inr [1, 2] \<and>
   predict lenient_lib (create_and_compile_model lenient_lib) ''1,2,x,4,5,6,7'' = Inl ValueError \<and>
   train lenient_lib (create_and_compile_model lenient_lib) ''1,2,x,4,5,6,7'' = Inl ValueError \<and>
   np_fromstring lenient_lib ''1,2,3,4,5,6,7'' = Inr [1, 2, 3, 4, 5, 6, 7] \<and>
   reshape [1, 2, 3, 4, 5, 6, 7 :: nat] 1 7 = Inr [[1, 2, 3, 4, 5, 6, 7]] \<and>
   np_fromstring lenient_lib ''1,2,3,4,5,6,7,8,9,10'' = Inr [1, 2, 3, 4, 5, 6, 7, 8, 9, 10] \<and>
   train lenient_lib (create_and_compile_model lenient_lib) ''1,2,3,4,5,6,7,8,9,10'' =
     Inr (model_fit lenient_lib (create_and_compile_model lenient_lib) [[1, 2, 3, 4, 5, 6, 7]] [[8, 9]] 1)"
proof -
  let ?M = "create_and_compile_model sample_lib"
  let ?N = "create_and_compile_model lenient_lib"
  have a: "np_fromstring sample_lib ''1,2,x,4,5,6,7'' = Inl ValueError" by code_simp
  have b: "np_fromstring lenient_lib ''1,2,x,4,5,6,7'' = Inr [1, 2]" by code_simp
  have c: "np_fromstring lenient_lib ''1,2,3,4,5,6,7,8,9,10'' = Inr [1, 2, 3, 4, 5, 6, 7, 8, 9, 10]"
    by code_simp
  have d: "np_fromstring lenient_lib ''1,2,3,4,5,6,7'' = Inr [1, 2, 3, 4, 5, 6, 7]" by code_simp
  have a': "predict sample_lib ?M ''1,2,x,4,5,6,7'' = Inl ValueError \<and>
            train sample_lib ?M ''1,2,x,4,5,6,7'' = Inl ValueError"
    using decode_failures [of sample_lib "''1,2,x,4,5,6,7''" ValueError ?M, THEN conjunct1] a by blast
  have b1: "predict lenient_lib ?N ''1,2,x,4,5,6,7'' = Inl ValueError"
    using decode_failures [of lenient_lib "''1,2,x,4,5,6,7''" _ ?N "[1, 2]",
        THEN conjunct2, THEN conjunct1] b by simp
  have b2: "train lenient_lib ?N ''1,2,x,4,5,6,7'' = Inl ValueError"
    using decode_failures [of lenient_lib "''1,2,x,4,5,6,7''" _ ?N "[1, 2]",
        THEN conjunct2, THEN conjunct2, THEN conjunct2, THEN conjunct1] b by simp
  have d': "reshape [1, 2, 3, 4, 5, 6, 7 :: nat] 1 7 = Inr [[1, 2, 3, 4, 5, 6, 7]]"
    using decode_failures [of lenient_lib "''1,2,3,4,5,6,7''" _ ?N "[1, 2, 3, 4, 5, 6, 7]",
        THEN conjunct2, THEN conjunct2, THEN conjunct1] d by simp
  have c': "train lenient_lib ?N ''1,2,3,4,5,6,7,8,9,10'' =
     Inr (model_fit lenient_lib ?N [[1, 2, 3, 4, 5, 6, 7]] [[8, 9]] 1)"
    using decode_failures [of lenient_lib "''1,2,3,4,5,6,7,8,9,10''" _ ?N "[1, 2, 3, 4, 5, 6, 7, 8, 9, 10]",
        THEN conjunct2, THEN conjunct2, THEN conjunct2, THEN conjunct2] c by simp
  show ?thesis using a b c d a' b1 b2 c' d' by blast
qed

text \<open>
  Claim C5, as stated, promises \<^verbatim>\<open>Goodbye!\<close> for every \<^verbatim>\<open>exit\<close>. When the peer has gone by
  the time the handler sends it, \<^verbatim>\<open>send\<close> raises \<^verbatim>\<open>ConnectionClosed\<close>: the session ends
  through the \<^verbatim>\<open>except\<close> branch and nothing is sent.
\<close>

theorem exit_without_goodbye:
  "lower ''exit'' = ''exit''
   \<and> handler sample_lib
       \<lparr>remote_address = ''peer'', inbox = [(''exit'', False)], close_reason = ''gone''\<rparr> =
       (Normal,
        \<lparr>sent = [],
         printed = [''Client connected from peer'', ''< exit'',
                    ''Client sent '' @ [CHR 0x27] @ ''exit'' @ [CHR 0x27] @ '' message. Closing connection.'',
                    ''Connection closed unexpectedly: gone'',
                    ''Client from peer disconnected.'']\<rparr>)"
  by code_simp

text \<open>
  Claim C5, amended. A message whose lower-case form is \<^verbatim>\<open>exit\<close> ends the loop, whatever
  the model, whatever has been sent and printed before, and whatever messages would
  follow: if the peer is still there, \<^verbatim>\<open>Goodbye!\<close> is sent and the loop breaks; if the peer
  has gone, nothing is sent and the loop ends with \<^verbatim>\<open>ConnectionClosed\<close>. In both cases the
  handler returns normally. The test comes before the tags are looked at: the outcome
  does not depend on the libraries or on the model.
\<close>

theorem exit_goodbye:
  assumes "lower message = ''exit''"
  shows "handler_loop L model ((message, True) # rest) reason s =
      (Normal,
       s\<lparr>sent := sent s @ [''Goodbye!''],
         printed := printed s @
           [''< '' @ message,
            ''Client sent '' @ [CHR 0x27] @ ''exit'' @ [CHR 0x27] @ '' message. Closing connection.'']\<rparr>)
    \<and> handler_loop L model ((message, False) # rest) reason s =
      (Exception (ConnectionClosed reason),
       s\<lparr>printed := printed s @
           [''< '' @ message,
            ''Client sent '' @ [CHR 0x27] @ ''exit'' @ [CHR 0x27] @ '' message. Closing connection.'']\<rparr>)
    \<and> fst (handler L \<lparr>remote_address = a, inbox = (message, up) # rest, close_reason = reason\<rparr>) = Normal
    \<and> sent (snd (handler L \<lparr>remote_address = a, inbox = (message, up) # rest, close_reason = reason\<rparr>)) =
        (if up then [''Goodbye!''] else [])"
proof -
  have 1: "handler_loop L model ((message, True) # rest) reason s =
      (Normal,
       s\<lparr>sent := sent s @ [''Goodbye!''],
         printed := printed s @
           [''< '' @ message,
            ''Client sent '' @ [CHR 0x27] @ ''exit'' @ [CHR 0x27] @ '' message. Closing connection.'']\<rparr>)"
    for model s
    using assms by (simp add: Let_def print_def send_def)
  have 2: "handler_loop L model ((message, False) # rest) reason s =
      (Exception (ConnectionClosed reason),
       s\<lparr>printed := printed s @
           [''< '' @ message,
            ''Client sent '' @ [CHR 0x27] @ ''exit'' @ [CHR 0x27] @ '' message. Closing connection.'']\<rparr>)"
    for model s
    using assms by (simp add: Let_def print_def send_def)
  have 3: "fst (handler L \<lparr>remote_address = a, inbox = (message, up) # rest, close_reason = reason\<rparr>) = Normal \<and>
    sent (snd (handler L \<lparr>remote_address = a, inbox = (message, up) # rest, close_reason = reason\<rparr>)) =
        (if up then [''Goodbye!''] else [])"
  proof (cases up)
    case True
    then show ?thesis
      by (simp add: handler_def 1 del: handler_loop.simps) (simp add: print_def)
  next
    case False
    then show ?thesis
      by (simp add: handler_def 2 del: handler_loop.simps) (simp add: print_def)
  qed
  show ?thesis using 1 2 3 by blast
qed

text \<open>\<^verbatim>\<open>ExIt\<close> after a training request, with a prediction request waiting behind it.\<close>

theorem exit_goodbye_witness:
  "lower ''ExIt'' = ''exit'' \<and>
   handler_loop sample_lib ((create_and_compile_model sample_lib)\<lparr>weights := 17\<rparr>)
     [(''ExIt'', True), (''predict:1,2,3,4,5,6,7'', True)] ''gone''
     \<lparr>sent = [''Train done''],
      printed = [''< train:1,2,3,4,5,6,7,8,9'', ''1/1 - loss'', ''> Train done'']\<rparr> =
     (Normal,
      \<lparr>sent = [''Train done'', ''Goodbye!''],
       printed = [''< train:1,2,3,4,5,6,7,8,9'', ''1/1 - loss'', ''> Train done'', ''< ExIt'',
                  ''Client sent '' @ [CHR 0x27] @ ''exit'' @ [CHR 0x27] @ '' message. Closing connection.'']\<rparr>)"
proof -
  have h: "lower ''ExIt'' = ''exit''" by code_simp
  have "handler_loop sample_lib ((create_and_compile_model sample_lib)\<lparr>weights := 17\<rparr>)
     ((''ExIt'', True) # [(''predict:1,2,3,4,5,6,7'', True)]) ''gone''
     \<lparr>sent = [''Train done''],
      printed = [''< train:1,2,3,4,5,6,7,8,9'', ''1/1 - loss'', ''> Train done'']\<rparr> =
     (Normal,
      \<lparr>sent = [''Train done''],
      printed = [''< train:1,2,3,4,5,6,7,8,9'', ''1/1 - loss'', ''> Train done'']\<rparr>
      \<lparr>sent := sent \<lparr>sent = [''Train done''],
            printed = [''< train:1,2,3,4,5,6,7,8,9'', ''1/1 - loss'', ''> Train done'']\<rparr> @ [''Goodbye!''],
         printed := printed \<lparr>sent = [''Train done''],
            printed = [''< train:1,2,3,4,5,6,7,8,9'', ''1/1 - loss'', ''> Train done'']\<rparr> @
           [''< '' @ ''ExIt'',
            ''Client sent '' @ [CHR 0x27] @ ''exit'' @ [CHR 0x27] @ '' message. Closing connection.'']\<rparr>)"
    using exit_goodbye [OF h, THEN conjunct1] .
  then have "handler_loop sample_lib ((create_and_compile_model sample_lib)\<lparr>weights := 17\<rparr>)
     [(''ExIt'', True), (''predict:1,2,3,4,5,6,7'', True)] ''gone''
     \<lparr>sent = [''Train done''],
      printed = [''< train:1,2,3,4,5,6,7,8,9'', ''1/1 - loss'', ''> Train done'']\<rparr> =
     (Normal,
      \<lparr>sent = [''Train done'', ''Goodbye!''],
       printed = [''< train:1,2,3,4,5,6,7,8,9'', ''1/1 - loss'', ''> Train done'', ''< ExIt'',
                  ''Client sent '' @ [CHR 0x27] @ ''exit'' @ [CHR 0x27] @ '' message. Closing connection.'']\<rparr>)"
    by (simp del: handler_loop.simps)
  then show ?thesis using h by blast
qed

text \<open>
  Claim C6, as stated, promises the echo to every message without a tag that is not
  \<^verbatim>\<open>exit\<close>. When the peer has gone by the time the handler sends it, \<^verbatim>\<open>send\<close> raises
  \<^verbatim>\<open>ConnectionClosed\<close> and nothing is sent.
\<close>

theorem echo_not_sent_to_a_peer_gone:
  "\<not> contains PREDICT_TAG ''hello'' \<and> \<not> contains TRAIN_TAG ''hello'' \<and> lower ''hello'' \<noteq> ''exit''
   \<and> handler sample_lib
       \<lparr>remote_address = ''peer'', inbox = [(''hello'', False)], close_reason = ''gone''\<rparr> =
       (Normal,
        \<lparr>sent = [],
         printed = [''Client connected from peer'', ''< hello'',
                    ''Connection closed unexpectedly: gone'',
                    ''Client from peer disconnected.'']\<rparr>)"
  by code_simp

text \<open>
  Claim C6, amended. For a message without \<^verbatim>\<open>predict:\<close>, without \<^verbatim>\<open>train:\<close> and whose
  lower-case form is not \<^verbatim>\<open>exit\<close>, the reply is \<^verbatim>\<open>Processed message: '\<close>, the message as it
  came, and a closing quote, and the model is left as it is. If the peer is still there,
  exactly this one message is sent and the loop goes on; if the peer has gone, nothing is
  sent and the loop ends with \<^verbatim>\<open>ConnectionClosed\<close>.
\<close>

theorem echo_reply:
  assumes "\<not> contains PREDICT_TAG message"
    and "\<not> contains TRAIN_TAG message"
    and "lower message \<noteq> ''exit''"
  shows "respond L model message =
      Inr (''Processed message: '' @ [CHR 0x27] @ message @ [CHR 0x27], model, [])
    \<and> handler_loop L model ((message, True) # rest) reason s =
      handler_loop L model rest reason
        (s\<lparr>sent := sent s @ [''Processed message: '' @ [CHR 0x27] @ message @ [CHR 0x27]],
           printed := printed s @
             [''< '' @ message, ''> Processed message: '' @ [CHR 0x27] @ message @ [CHR 0x27]]\<rparr>)
    \<and> handler_loop L model ((message, False) # rest) reason s =
      (Exception (ConnectionClosed reason), s\<lparr>printed := printed s @ [''< '' @ message]\<rparr>)"
proof -
  let ?r = "''Processed message: '' @ [CHR 0x27] @ message @ [CHR 0x27]"
  have rs: "respond L model message = Inr (?r, model, [])"
    using assms(1,2) by (simp add: respond_def)
  show ?thesis
    using rs loop_replies [OF assms(3) rs, of rest reason s]
      loop_peer_gone [OF assms(3) rs, of rest reason s]
    by simp
qed

text \<open>A message with punctuation, and with \<^verbatim>\<open>exit\<close> inside it.\<close>

theorem echo_reply_witness:
  "\<not> contains PREDICT_TAG ''<b>50% & #x; exit'' \<and>
   \<not> contains TRAIN_TAG ''<b>50% & #x; exit'' \<and>
   lower ''<b>50% & #x; exit'' \<noteq> ''exit'' \<and>
   respond sample_lib (create_and_compile_model sample_lib) ''<b>50% & #x; exit'' =
     Inr (''Processed message: '' @ [CHR 0x27] @ ''<b>50% & #x; exit'' @ [CHR 0x27],
          create_and_compile_model sample_lib, []) \<and>
   handler_loop sample_lib (create_and_compile_model sample_lib) [(''<b>50% & #x; exit'', True)] ''gone''
     \<lparr>sent = [], printed = []\<rparr> =
     (Exception (ConnectionClosed ''gone''),
      \<lparr>sent = [''Processed message: '' @ [CHR 0x27] @ ''<b>50% & #x; exit'' @ [CHR 0x27]],
       printed = [''< <b>50% & #x; exit'',
         ''> Processed message: '' @ [CHR 0x27] @ ''<b>50% & #x; exit'' @ [CHR 0x27]]\<rparr>)"
proof -
  let ?M = "create_and_compile_model sample_lib"
  let ?s = "\<lparr>sent = [], printed = []\<rparr>"
  have h1: "\<not> contains PREDICT_TAG ''<b>50% & #x; exit''" by code_simp
  have h2: "\<not> contains TRAIN_TAG ''<b>50% & #x; exit''" by code_simp
  have h3: "lower ''<b>50% & #x; exit'' \<noteq> ''exit''" by code_simp
  note t = echo_reply [OF h1 h2 h3, of sample_lib ?M "[]" "''gone''" ?s]
  have r1: "respond sample_lib ?M ''<b>50% & #x; exit'' =
     Inr (''Processed message: '' @ [CHR 0x27] @ ''<b>50% & #x; exit'' @ [CHR 0x27], ?M, [])"
    using t by blast
  have "handler_loop sample_lib ?M ((''<b>50% & #x; exit'', True) # []) ''gone'' ?s =
      handler_loop sample_lib ?M [] ''gone''
        (?s\<lparr>sent := sent ?s @ [''Processed message: '' @ [CHR 0x27] @ ''<b>50% & #x; exit'' @ [CHR 0x27]],
           printed := printed ?s @
             [''< '' @ ''<b>50% & #x; exit'',
              ''> Processed message: '' @ [CHR 0x27] @ ''<b>50% & #x; exit'' @ [CHR 0x27]]\<rparr>)"
    using t by blast
  then have r2: "handler_loop sample_lib ?M [(''<b>50% & #x; exit'', True)] ''gone'' ?s =
     (Exception (ConnectionClosed ''gone''),
      \<lparr>sent = [''Processed message: '' @ [CHR 0x27] @ ''<b>50% & #x; exit'' @ [CHR 0x27]],
       printed = [''< <b>50% & #x; exit'',
         ''> Processed message: '' @ [CHR 0x27] @ ''<b>50% & #x; exit'' @ [CHR 0x27]]\<rparr>)"
    by simp
  show ?thesis using h1 h2 h3 r1 r2 by blast
qed

text \<open>
  Claim C7. One pass of the loop tests, in this order: the lower-case form of the message
  against \<^verbatim>\<open>exit\<close>, the tag \<^verbatim>\<open>predict:\<close>, the tag \<^verbatim>\<open>train:\<close>, and echoes what is left.
  So a message with both tags goes to \<^const>\<open>predict\<close>: the outcome is the one of the
  prediction, and if there is a reply, the model behind it is the model as it was.
\<close>

theorem dispatch_priority:
  "handler_loop L model ((message, up) # rest) reason s =
     (let s1 = print (''< '' @ message) s in
      if lower message = ''exit'' then
        (let s2 = print (''Client sent '' @ [CHR 0x27] @ ''exit'' @ [CHR 0x27] @ '' message. Closing connection.'') s1 in
         case send up reason ''Goodbye!'' s2 of
           Inl e \<Rightarrow> (Exception e, s2)
         | Inr s3 \<Rightarrow> (Normal, s3))
      else if contains PREDICT_TAG message then
        (case predict L model (drop PREDICT_TAG_LEN message) of
           Inl e \<Rightarrow> (Exception e, s1)
         | Inr r \<Rightarrow>
             (case send up reason (''predict:'' @ r) s1 of
                Inl e \<Rightarrow> (Exception e, s1)
              | Inr s3 \<Rightarrow> handler_loop L model rest reason (print (''> predict:'' @ r) s3)))
      else if contains TRAIN_TAG message then
        (case train L model (drop TRAIN_TAG_LEN message) of
           Inl e \<Rightarrow> (Exception e, s1)
         | Inr (model', out) \<Rightarrow>
             (let s2 = print_lines out s1 in
              case send up reason ''Train done'' s2 of
                Inl e \<Rightarrow> (Exception e, s2)
              | Inr s3 \<Rightarrow> handler_loop L model' rest reason (print ''> Train done'' s3)))
      else
        (case send up reason (''Processed message: '' @ [CHR 0x27] @ message @ [CHR 0x27]) s1 of
           Inl e \<Rightarrow> (Exception e, s1)
         | Inr s3 \<Rightarrow>
             handler_loop L model rest reason
               (print (''> Processed message: '' @ [CHR 0x27] @ message @ [CHR 0x27]) s3)))
   \<and> (contains PREDICT_TAG message \<and> contains TRAIN_TAG message \<longrightarrow>
        respond L model message =
          (case predict L model (drop PREDICT_TAG_LEN message) of
             Inl e \<Rightarrow> Inl e
           | Inr r \<Rightarrow> Inr (''predict:'' @ r, model, [])))"
proof -
  have nil: "print_lines [] s1 = s1" for s1 :: session
    by (simp add: print_lines_def)
  show ?thesis
    by (simp add: Let_def respond_def nil split: sum.splits prod.splits)
qed

text \<open>
  A message with both tags, under the parser that stops at the first field that is not a
  number: the reply is the prediction and the model is the untrained one.
\<close>

theorem dispatch_priority_witness:
  "contains PREDICT_TAG ''predict:1,2,3,4,5,6,7,train:'' \<and>
   contains TRAIN_TAG ''predict:1,2,3,4,5,6,7,train:'' \<and>
   respond lenient_lib (create_and_compile_model lenient_lib) ''predict:1,2,3,4,5,6,7,train:'' =
     Inr (''predict:118,119'', create_and_compile_model lenient_lib, [])"
proof -
  have h1: "contains PREDICT_TAG ''predict:1,2,3,4,5,6,7,train:''" by code_simp
  have h2: "contains TRAIN_TAG ''predict:1,2,3,4,5,6,7,train:''" by code_simp
  have p: "predict lenient_lib (create_and_compile_model lenient_lib)
             (drop PREDICT_TAG_LEN ''predict:1,2,3,4,5,6,7,train:'') = Inr ''118,119''"
    by code_simp
  have "respond lenient_lib (create_and_compile_model lenient_lib) ''predict:1,2,3,4,5,6,7,train:'' =
     Inr (''predict:118,119'', create_and_compile_model lenient_lib, [])"
    using dispatch_priority [of lenient_lib "create_and_compile_model lenient_lib"
        "''predict:1,2,3,4,5,6,7,train:''", THEN conjunct2] h1 h2
    by (simp only: p sum.case append.simps simp_thms)
  then show ?thesis using h1 h2 by blast
qed

text \<open>
  Claim C8. A prediction request leaves the model as it is, so the same request sent
  twice in a row, to a peer that stays, gets the same reply twice (to a peer that has
  gone nothing is sent and the loop ends); and whenever the model after a message is not
  the model before it, the message went to \<^const>\<open>train\<close>.
\<close>

theorem predict_read_only:
  "(contains PREDICT_TAG message \<and> respond L model message = Inr (r, model', out) \<longrightarrow>
      model' = model \<and> out = [] \<and>
      handler_loop L model ((message, True) # rest) reason s =
        handler_loop L model rest reason
          (s\<lparr>sent := sent s @ [r], printed := printed s @ [''< '' @ message, ''> '' @ r]\<rparr>) \<and>
      handler_loop L model ((message, True) # (message, True) # rest) reason s =
        handler_loop L model rest reason
          (s\<lparr>sent := sent s @ [r, r],
             printed := printed s @
               [''< '' @ message, ''> '' @ r, ''< '' @ message, ''> '' @ r]\<rparr>) \<and>
      handler_loop L model ((message, False) # rest) reason s =
        (Exception (ConnectionClosed reason), s\<lparr>printed := printed s @ [''< '' @ message]\<rparr>))
   \<and> (respond L model message = Inr (r, model', out) \<and> model' \<noteq> model \<longrightarrow>
        \<not> contains PREDICT_TAG message \<and> contains TRAIN_TAG message)"
proof (intro conjI impI)
  assume a: "contains PREDICT_TAG message \<and> respond L model message = Inr (r, model', out)"
  then show m: "model' = model" and o: "out = []"
    by (auto simp: respond_def split: sum.splits)
  have ne: "lower message \<noteq> ''exit''"
    using a tagged_not_exit by blast
  have rs: "respond L model message = Inr (r, model, [])" using a m o by simp
  show one: "handler_loop L model ((message, True) # rest) reason s =
        handler_loop L model rest reason
          (s\<lparr>sent := sent s @ [r], printed := printed s @ [''< '' @ message, ''> '' @ r]\<rparr>)"
    for rest s
    using loop_replies [OF ne rs, of rest reason s] by simp
  show "handler_loop L model ((message, True) # (message, True) # rest) reason s =
        handler_loop L model rest reason
          (s\<lparr>sent := sent s @ [r, r],
             printed := printed s @
               [''< '' @ message, ''> '' @ r, ''< '' @ message, ''> '' @ r]\<rparr>)"
    unfolding one by simp
  show "handler_loop L model ((message, False) # rest) reason s =
        (Exception (ConnectionClosed reason), s\<lparr>printed := printed s @ [''< '' @ message]\<rparr>)"
    using loop_peer_gone [OF ne rs, of rest reason s] by simp
next
  assume "respond L model message = Inr (r, model', out) \<and> model' \<noteq> model"
  then show "\<not> contains PREDICT_TAG message" "contains TRAIN_TAG message"
    using respond_model_changed [of L model message r model' out] by blast+
qed

text \<open>
  The same prediction request twice on a fresh session, and a training request that moves
  the state from 0 to 17.
\<close>

theorem predict_read_only_witness:
  "contains PREDICT_TAG ''predict:1,2,3,4,5,6,7'' \<and>
   respond sample_lib (create_and_compile_model sample_lib) ''predict:1,2,3,4,5,6,7'' =
     Inr (''predict:118,119'', create_and_compile_model sample_lib, []) \<and>
   handler_loop sample_lib (create_and_compile_model sample_lib)
     [(''predict:1,2,3,4,5,6,7'', True), (''predict:1,2,3,4,5,6,7'', True)] ''gone''
     \<lparr>sent = [], printed = []\<rparr> =
   (Exception (ConnectionClosed ''gone''),
    \<lparr>sent = [''predict:118,119'', ''predict:118,119''],
     printed = [''< predict:1,2,3,4,5,6,7'', ''> predict:118,119'',
                ''< predict:1,2,3,4,5,6,7'', ''> predict:118,119'']\<rparr>) \<and>
   respond sample_lib (create_and_compile_model sample_lib) ''train:1,2,3,4,5,6,7,8,9'' =
     Inr (''Train done'', (create_and_compile_model sample_lib)\<lparr>weights := 17\<rparr>, [''1/1 - loss'']) \<and>
   (create_and_compile_model sample_lib)\<lparr>weights := 17\<rparr> \<noteq> create_and_compile_model sample_lib \<and>
   \<not> contains PREDICT_TAG ''train:1,2,3,4,5,6,7,8,9'' \<and>
   contains TRAIN_TAG ''train:1,2,3,4,5,6,7,8,9''"
proof -
  let ?M = "create_and_compile_model sample_lib"
  let ?s = "\<lparr>sent = [], printed = []\<rparr>"
  have h1: "contains PREDICT_TAG ''predict:1,2,3,4,5,6,7''" by code_simp
  have h2: "respond sample_lib ?M ''predict:1,2,3,4,5,6,7'' = Inr (''predict:118,119'', ?M, [])"
    by code_simp
  have h3: "respond sample_lib ?M ''train:1,2,3,4,5,6,7,8,9'' =
              Inr (''Train done'', ?M\<lparr>weights := 17\<rparr>, [''1/1 - loss''])"
    by code_simp
  have h4: "?M\<lparr>weights := 17\<rparr> \<noteq> ?M"
    by (simp add: create_and_compile_model_def sample_lib_def)
  have step: "handler_loop sample_lib ?M
     ((''predict:1,2,3,4,5,6,7'', True) # (''predict:1,2,3,4,5,6,7'', True) # []) ''gone'' ?s =
     handler_loop sample_lib ?M [] ''gone''
       (?s\<lparr>sent := sent ?s @ [''predict:118,119'', ''predict:118,119''],
          printed := printed ?s @
            [''< '' @ ''predict:1,2,3,4,5,6,7'', ''> '' @ ''predict:118,119'',
             ''< '' @ ''predict:1,2,3,4,5,6,7'', ''> '' @ ''predict:118,119'']\<rparr>)"
    using predict_read_only [of "''predict:1,2,3,4,5,6,7''" sample_lib ?M "''predict:118,119''" ?M
        "[]" "[]" "''gone''" ?s, THEN conjunct1] h1 h2
    by blast
  have two: "handler_loop sample_lib ?M
     [(''predict:1,2,3,4,5,6,7'', True), (''predict:1,2,3,4,5,6,7'', True)] ''gone'' ?s =
   (Exception (ConnectionClosed ''gone''),
    \<lparr>sent = [''predict:118,119'', ''predict:118,119''],
     printed = [''< predict:1,2,3,4,5,6,7'', ''> predict:118,119'',
                ''< predict:1,2,3,4,5,6,7'', ''> predict:118,119'']\<rparr>)"
    unfolding step by simp
  have tr: "\<not> contains PREDICT_TAG ''train:1,2,3,4,5,6,7,8,9'' \<and>
            contains TRAIN_TAG ''train:1,2,3,4,5,6,7,8,9''"
    using predict_read_only [of "''train:1,2,3,4,5,6,7,8,9''" sample_lib ?M "''Train done''"
        "?M\<lparr>weights := 17\<rparr>" "[''1/1 - loss'']", THEN conjunct2] h3 h4
    by blast
  show ?thesis using h1 h2 h3 h4 two tr by blast
qed



text \<open>
  Claim C10. The tags are matched as they are written, in small letters. A message that
  contains a tag in another casing (any \<open>tag\<close> whose lower-case form is \<^verbatim>\<open>predict:\<close> or
  \<^verbatim>\<open>train:\<close>) and neither tag in small letters is not dispatched to \<^const>\<open>predict\<close> or
  \<^const>\<open>train\<close>: the reply is the echo, the model is left as it is, and the loop sends
  the echo if the peer is still there.
\<close>

theorem tags_case_sensitive:
  assumes "lower tag = PREDICT_TAG \<or> lower tag = TRAIN_TAG"
    and "contains tag message"
    and "\<not> contains PREDICT_TAG message"
    and "\<not> contains TRAIN_TAG message"
  shows "respond L model message =
      Inr (''Processed message: '' @ [CHR 0x27] @ message @ [CHR 0x27], model, [])
    \<and> handler_loop L model ((message, True) # rest) reason s =
      handler_loop L model rest reason
        (s\<lparr>sent := sent s @ [''Processed message: '' @ [CHR 0x27] @ message @ [CHR 0x27]],
           printed := printed s @
             [''< '' @ message, ''> Processed message: '' @ [CHR 0x27] @ message @ [CHR 0x27]]\<rparr>)
    \<and> handler_loop L model ((message, False) # rest) reason s =
      (Exception (ConnectionClosed reason), s\<lparr>printed := printed s @ [''< '' @ message]\<rparr>)"
proof -
  let ?r = "''Processed message: '' @ [CHR 0x27] @ message @ [CHR 0x27]"
  have "length (lower tag) = 8 \<or> length (lower tag) = 6"
    using assms(1) by (auto simp: PREDICT_TAG_def TRAIN_TAG_def)
  then have "6 \<le> length tag" by (auto simp: lower_length)
  then have "6 \<le> length message"
    using contains_length [OF assms(2)] by simp
  then have ne: "lower message \<noteq> ''exit''"
    using exit_length [of message] by auto
  have rs: "respond L model message = Inr (?r, model, [])"
    using assms(3,4) by (simp add: respond_def)
  show ?thesis
    using rs loop_replies [OF ne rs, of rest reason s] loop_peer_gone [OF ne rs, of rest reason s]
    by simp
qed

text \<open>\<^verbatim>\<open>PREDICT:\<close> and \<^verbatim>\<open>Train:\<close> in front of payloads that would be well formed.\<close>

theorem tags_case_sensitive_witness:
  "lower ''PREDICT:'' = PREDICT_TAG \<and>
   contains ''PREDICT:'' ''PREDICT:1,2,3,4,5,6,7'' \<and>
   \<not> contains PREDICT_TAG ''PREDICT:1,2,3,4,5,6,7'' \<and>
   \<not> contains TRAIN_TAG ''PREDICT:1,2,3,4,5,6,7'' \<and>
   respond sample_lib (create_and_compile_model sample_lib) ''PREDICT:1,2,3,4,5,6,7'' =
     Inr (''Processed message: '' @ [CHR 0x27] @ ''PREDICT:1,2,3,4,5,6,7'' @ [CHR 0x27],
          create_and_compile_model sample_lib, []) \<and>
   lower ''Train:'' = TRAIN_TAG \<and>
   contains ''Train:'' ''Train:1,2,3,4,5,6,7,8,9'' \<and>
   \<not> contains PREDICT_TAG ''Train:1,2,3,4,5,6,7,8,9'' \<and>
   \<not> contains TRAIN_TAG ''Train:1,2,3,4,5,6,7,8,9'' \<and>
   respond sample_lib (create_and_compile_model sample_lib) ''Train:1,2,3,4,5,6,7,8,9'' =
     Inr (''Processed message: '' @ [CHR 0x27] @ ''Train:1,2,3,4,5,6,7,8,9'' @ [CHR 0x27],
          create_and_compile_model sample_lib, [])"
proof -
  have p1: "lower ''PREDICT:'' = PREDICT_TAG" by code_simp
  have p2: "contains ''PREDICT:'' ''PREDICT:1,2,3,4,5,6,7''" by code_simp
  have p3: "\<not> contains PREDICT_TAG ''PREDICT:1,2,3,4,5,6,7''" by code_simp
  have p4: "\<not> contains TRAIN_TAG ''PREDICT:1,2,3,4,5,6,7''" by code_simp
  have t1: "lower ''Train:'' = TRAIN_TAG" by code_simp
  have t2: "contains ''Train:'' ''Train:1,2,3,4,5,6,7,8,9''" by code_simp
  have t3: "\<not> contains PREDICT_TAG ''Train:1,2,3,4,5,6,7,8,9''" by code_simp
  have t4: "\<not> contains TRAIN_TAG ''Train:1,2,3,4,5,6,7,8,9''" by code_simp
  note p = tags_case_sensitive [OF disjI1 [OF p1] p2 p3 p4, THEN conjunct1]
  note t = tags_case_sensitive [OF disjI2 [OF t1] t2 t3 t4, THEN conjunct1]
  show ?thesis
    using p1 p2 p3 p4 t1 t2 t3 t4 p t by blast
qed

end
